theory Spec2Isabelle
  imports Complex_Main "HOL-Library.Multiset" "HOL-Library.Sublist"
begin

text \<open>
  The repository holds three question-answering systems. Named from the repository
  root, \<open>simple_rag_system.py\<close> is the lexical \<open>SimpleRAGSystem\<close>, \<open>rag_system.py\<close> is
  the dense \<open>RAGSystem\<close> (sentence embeddings and a vector index), and
  \<open>src/rag_system.py\<close> is a refactored lexical \<open>RAGSystem\<close>; \<open>metrics.py\<close> is the
  \<open>MetricsTracker\<close>. The definitions below follow these sources method by method and
  keep their names.
\<close>

section \<open>Strings, tokens and documents\<close>

text \<open>
  A Python string is a sequence of Unicode code points, and a code point is a natural
  number. Python floats are modelled as exact rationals.
\<close>

type_synonym codepoint = nat

type_synonym pystr = "codepoint list"

text \<open>A string literal of the source text, as its code points.\<close>

definition str :: "string \<Rightarrow> pystr" where
  "str s = map of_char s"

text \<open>
  Two library functions read the Unicode character database, which is not part of the
  repository: \<open>str.lower()\<close> and the class \<open>\w\<close> of \<open>re\<close> on a \<open>str\<close> pattern. They are
  the parameter \<open>u\<close> of everything that tokenises. \<open>lower u s\<close> is \<open>s.lower()\<close>, a
  function of the whole string: the result can differ in length from \<open>s\<close>, and a letter
  can lower-case by its position. \<open>word_char u c\<close> says that \<open>\w\<close> matches the code
  point \<open>c\<close>.
\<close>

record unicode =
  lower :: "pystr \<Rightarrow> pystr"
  word_char :: "codepoint \<Rightarrow> bool"

text \<open>
  \<open>re.findall(r'\w+', s)\<close>: the maximal runs of word characters of \<open>s\<close>, left to
  right. The second argument is the run read so far.
\<close>

fun findall_run :: "unicode \<Rightarrow> pystr \<Rightarrow> pystr \<Rightarrow> pystr list" where
  "findall_run u cur [] = (if cur = [] then [] else [cur])"
| "findall_run u cur (c # cs) =
     (if word_char u c then findall_run u (cur @ [c]) cs
      else if cur = [] then findall_run u [] cs
      else cur # findall_run u [] cs)"

definition findall_w :: "unicode \<Rightarrow> pystr \<Rightarrow> pystr list" where
  "findall_w u s = findall_run u [] s"

text \<open>\<open>w in s\<close> on two Python strings: \<open>w\<close> occurs in \<open>s\<close> as a contiguous substring.\<close>

fun starts_with :: "pystr \<Rightarrow> pystr \<Rightarrow> bool" where
  "starts_with [] s = True"
| "starts_with (c # w) [] = False"
| "starts_with (c # w) (d # s) = (c = d \<and> starts_with w s)"

fun substring_in :: "pystr \<Rightarrow> pystr \<Rightarrow> bool" where
  "substring_in w [] = (w = [])"
| "substring_in w (d # s) = (starts_with w (d # s) \<or> substring_in w s)"

text \<open>
  A document is a dictionary read from the JSON store; each of the three keys may be
  absent. \<open>doc.get(k, default)\<close> is \<open>dict_get\<close>, \<open>doc[k]\<close> is \<open>subscript\<close>, which
  raises \<open>KeyError\<close> on an absent key. A scored document is the copy \<open>doc.copy()\<close>
  with the key \<open>score\<close> added.
\<close>

record document =
  title :: "pystr option"
  content :: "pystr option"
  category :: "pystr option"

record scored_document = document +
  score :: rat

datatype error =
    KeyError string
  | APIError string
  | StatisticsError string
  | Exception string

definition dict_get :: "'a option \<Rightarrow> 'a \<Rightarrow> 'a" where
  "dict_get v dflt = (case v of None \<Rightarrow> dflt | Some x \<Rightarrow> x)"

definition subscript :: "'a option \<Rightarrow> string \<Rightarrow> error + 'a" where
  "subscript v key = (case v of None \<Rightarrow> Inl (KeyError key) | Some x \<Rightarrow> Inr x)"

definition doc_copy_with_score :: "document \<Rightarrow> rat \<Rightarrow> scored_document" where
  "doc_copy_with_score doc s =
     \<lparr>title = title doc, content = content doc, category = category doc, score = s\<rparr>"

text \<open>\<open>xs[:k]\<close> for a Python integer \<open>k\<close>: a negative \<open>k\<close> counts from the end.\<close>

definition slice_to :: "'a list \<Rightarrow> int \<Rightarrow> 'a list" where
  "slice_to xs k =
     (if 0 \<le> k then take (nat k) xs else take (nat (int (length xs) + k)) xs)"

text \<open>
  \<open>xs.sort(key=f, reverse=True)\<close>: a stable sort into non-increasing key order,
  elements with equal keys keeping their original order.
\<close>

definition sort_reverse :: "('a \<Rightarrow> rat) \<Rightarrow> 'a list \<Rightarrow> 'a list" where
  "sort_reverse f xs = sort_key (\<lambda>x. - f x) xs"

section \<open>Lexical retrieval: \<open>SimpleRAGSystem._retrieve_relevant_documents\<close>\<close>

text \<open>The loop \<open>for word in query_words\<close>, over an enumeration of the set.\<close>

fun phrase_bonus_loop :: "pystr list \<Rightarrow> pystr \<Rightarrow> pystr \<Rightarrow> nat \<Rightarrow> nat" where
  "phrase_bonus_loop [] content_lower title_lower phrase_bonus = phrase_bonus"
| "phrase_bonus_loop (word # ws) content_lower title_lower phrase_bonus =
     phrase_bonus_loop ws content_lower title_lower
       (phrase_bonus
          + (if substring_in word content_lower then 1 else 0)
          + (if substring_in word title_lower then 2 else 0))"

definition total_score :: "unicode \<Rightarrow> pystr \<Rightarrow> document \<Rightarrow> nat" where
  "total_score u query doc =
     (let query_lower = lower u query;
          query_words = set (findall_w u query_lower);
          title_lower = lower u (dict_get (title doc) []);
          content_lower = lower u (dict_get (content doc) []);
          category_lower = lower u (dict_get (category doc) []);
          title_words = set (findall_w u title_lower);
          content_words = set (findall_w u content_lower);
          category_words = set (findall_w u category_lower);
          title_score = card (query_words \<inter> title_words) * 3;
          content_score = card (query_words \<inter> content_words) * 1;
          category_score = card (query_words \<inter> category_words) * 2;
          phrase_bonus =
            phrase_bonus_loop (remdups (findall_w u query_lower)) content_lower title_lower 0
      in title_score + content_score + category_score + phrase_bonus)"

definition query_length :: "unicode \<Rightarrow> pystr \<Rightarrow> nat" where
  "query_length u query = max (card (set (findall_w u (lower u query)))) 1"

text \<open>The loop \<open>for doc in self.documents\<close>, building \<open>scored_docs\<close>.\<close>

fun score_loop :: "unicode \<Rightarrow> pystr \<Rightarrow> document list \<Rightarrow> scored_document list" where
  "score_loop u query [] = []"
| "score_loop u query (doc # docs) =
     (if total_score u query doc > 0
      then doc_copy_with_score doc (of_nat (total_score u query doc) / of_nat (query_length u query))
             # score_loop u query docs
      else score_loop u query docs)"

text \<open>
  The body of the method. Its \<open>except\<close> clause returns the empty list; with documents
  whose fields are strings nothing in the body raises, so the body is the method.
\<close>

definition retrieve_relevant_documents ::
    "unicode \<Rightarrow> document list \<Rightarrow> pystr \<Rightarrow> int \<Rightarrow> scored_document list" where
  "retrieve_relevant_documents u docs query top_k =
     slice_to (sort_reverse score (score_loop u query docs)) top_k"

section \<open>Lexical retrieval, refactored: \<open>RAGSystem._retrieve_documents\<close> of \<open>src/rag_system.py\<close>\<close>

definition total_score_basic :: "unicode \<Rightarrow> pystr \<Rightarrow> document \<Rightarrow> nat" where
  "total_score_basic u query doc =
     (let query_words = set (findall_w u (lower u query));
          title_words = set (findall_w u (lower u (dict_get (title doc) [])));
          content_words = set (findall_w u (lower u (dict_get (content doc) [])));
          title_score = card (query_words \<inter> title_words) * 3;
          content_score = card (query_words \<inter> content_words) * 1
      in title_score + content_score)"

fun score_loop_basic :: "unicode \<Rightarrow> pystr \<Rightarrow> document list \<Rightarrow> scored_document list" where
  "score_loop_basic u query [] = []"
| "score_loop_basic u query (doc # docs) =
     (if total_score_basic u query doc > 0
      then doc_copy_with_score doc
             (of_nat (total_score_basic u query doc) / of_nat (query_length u query))
             # score_loop_basic u query docs
      else score_loop_basic u query docs)"

definition retrieve_documents ::
    "unicode \<Rightarrow> document list \<Rightarrow> pystr \<Rightarrow> int \<Rightarrow> scored_document list" where
  "retrieve_documents u docs query top_k =
     slice_to (sort_reverse score (score_loop_basic u query docs)) top_k"

section \<open>The scoring rule as the specification words it\<close>

text \<open>
  \<open>score = 3*|Q \<inter> T| + 1*|Q \<inter> C| + 2*|Q \<inter> G| + phrase_bonus\<close>, the bonus adding 1 for
  each query word that is a substring of the lower-cased content and 2 for each that
  is a substring of the lower-cased title; then \<open>score /= max(|Q|, 1)\<close>.
\<close>

definition spec_phrase_bonus :: "pystr set \<Rightarrow> pystr \<Rightarrow> pystr \<Rightarrow> nat" where
  "spec_phrase_bonus Q content_lower title_lower =
     1 * card {w \<in> Q. substring_in w content_lower}
       + 2 * card {w \<in> Q. substring_in w title_lower}"

definition spec_lexical_score :: "unicode \<Rightarrow> pystr \<Rightarrow> document \<Rightarrow> rat" where
  "spec_lexical_score u query doc =
     (let Q = set (findall_w u (lower u query));
          T = set (findall_w u (lower u (dict_get (title doc) [])));
          C = set (findall_w u (lower u (dict_get (content doc) [])));
          G = set (findall_w u (lower u (dict_get (category doc) [])))
      in of_nat (3 * card (Q \<inter> T) + 1 * card (Q \<inter> C) + 2 * card (Q \<inter> G)
                  + spec_phrase_bonus Q (lower u (dict_get (content doc) []))
                      (lower u (dict_get (title doc) [])))
           / of_nat (max (card Q) 1))"

definition basic_lexical_score :: "unicode \<Rightarrow> pystr \<Rightarrow> document \<Rightarrow> rat" where
  "basic_lexical_score u query doc =
     (let Q = set (findall_w u (lower u query));
          T = set (findall_w u (lower u (dict_get (title doc) [])));
          C = set (findall_w u (lower u (dict_get (content doc) [])))
      in of_nat (3 * card (Q \<inter> T) + 1 * card (Q \<inter> C)) / of_nat (max (card Q) 1))"

section \<open>Confidence: \<open>_calculate_confidence\<close>\<close>

definition weights :: "rat list" where
  "weights = [1.0, 0.7, 0.5]"

text \<open>
  The loop \<open>for i, doc in enumerate(context_docs[:3])\<close> of the lexical systems
  (\<open>simple_rag_system.py\<close> and \<open>src/rag_system.py\<close>), on the pair
  \<open>(weighted_score, total_weight)\<close>.
\<close>

fun confidence_loop :: "nat \<Rightarrow> scored_document list \<Rightarrow> rat \<times> rat \<Rightarrow> rat \<times> rat" where
  "confidence_loop i [] (weighted_score, total_weight) = (weighted_score, total_weight)"
| "confidence_loop i (doc # docs) (weighted_score, total_weight) =
     (let weight = (if i < length weights then weights ! i else 0.3)
      in confidence_loop (Suc i) docs
           (weighted_score + min (score doc) 1.0 * weight, total_weight + weight))"

definition calculate_confidence :: "scored_document list \<Rightarrow> rat" where
  "calculate_confidence context_docs =
     (if context_docs = [] then 0.0
      else
        (case confidence_loop 0 (slice_to context_docs 3) (0.0, 0.0) of
           (weighted_score, total_weight) \<Rightarrow>
             (let confidence' = (if total_weight > 0 then weighted_score / total_weight else 0.0)
              in min 1.0 (max 0.0 confidence'))))"

text \<open>The same method of the dense system (\<open>rag_system.py\<close>): the score is not capped.\<close>

fun confidence_loop_dense ::
    "nat \<Rightarrow> scored_document list \<Rightarrow> rat \<times> rat \<Rightarrow> rat \<times> rat" where
  "confidence_loop_dense i [] (weighted_score, total_weight) = (weighted_score, total_weight)"
| "confidence_loop_dense i (doc # docs) (weighted_score, total_weight) =
     (let weight = (if i < length weights then weights ! i else 0.3)
      in confidence_loop_dense (Suc i) docs
           (weighted_score + score doc * weight, total_weight + weight))"

definition calculate_confidence_dense :: "scored_document list \<Rightarrow> rat" where
  "calculate_confidence_dense context_docs =
     (if context_docs = [] then 0.0
      else
        (case confidence_loop_dense 0 (slice_to context_docs 3) (0.0, 0.0) of
           (weighted_score, total_weight) \<Rightarrow>
             (let confidence' = (if total_weight > 0 then weighted_score / total_weight else 0.0)
              in min 1.0 (max 0.0 confidence'))))"

text \<open>The estimator as the specification words it.\<close>

definition position_weight :: "nat \<Rightarrow> rat" where
  "position_weight i = (if i = 0 then 1.0 else if i = 1 then 0.7 else if i = 2 then 0.5 else 0.3)"

definition clamp01 :: "rat \<Rightarrow> rat" where
  "clamp01 x = min 1 (max 0 x)"

definition spec_confidence :: "rat list \<Rightarrow> rat" where
  "spec_confidence scores =
     (if scores = [] then 0
      else clamp01
        ((\<Sum>i < min 3 (length scores). min (scores ! i) 1 * position_weight i)
           / (\<Sum>i < min 3 (length scores). position_weight i)))"

definition unclamped_confidence :: "rat list \<Rightarrow> rat" where
  "unclamped_confidence scores =
     (if scores = [] then 0
      else clamp01
        ((\<Sum>i < min 3 (length scores). scores ! i * position_weight i)
           / (\<Sum>i < min 3 (length scores). position_weight i)))"

section \<open>Generation and the orchestrator\<close>

text \<open>
  Exceptions are values: a computation that may raise has type \<open>error + 'a\<close>.
  \<open>try_except body handler\<close> is \<open>try: body except Exception as e: handler(e)\<close>. The
  chat-completion call together with the read \<open>response.choices[0].message.content\<close>
  is the parameter \<open>llm\<close>, from the system and the user message to the answer text or
  to the exception raised.
\<close>

type_synonym llm = "pystr \<Rightarrow> pystr \<Rightarrow> error + pystr"

definition try_except :: "error + 'a \<Rightarrow> (error \<Rightarrow> error + 'a) \<Rightarrow> error + 'a" where
  "try_except body handler = (case body of Inl e \<Rightarrow> handler e | Inr v \<Rightarrow> Inr v)"

definition bind_result :: "error + 'a \<Rightarrow> ('a \<Rightarrow> error + 'b) \<Rightarrow> error + 'b" where
  "bind_result m f = (case m of Inl e \<Rightarrow> Inl e | Inr v \<Rightarrow> f v)"

fun map_result :: "('a \<Rightarrow> error + 'b) \<Rightarrow> 'a list \<Rightarrow> error + 'b list" where
  "map_result f [] = Inr []"
| "map_result f (x # xs) =
     bind_result (f x) (\<lambda>y. bind_result (map_result f xs) (\<lambda>ys. Inr (y # ys)))"

fun join :: "pystr \<Rightarrow> pystr list \<Rightarrow> pystr" where
  "join sep [] = []"
| "join sep [x] = x"
| "join sep (x # y # ys) = x @ sep @ join sep (y # ys)"

definition newline :: pystr where
  "newline = [10]"

record source =
  source_title :: pystr
  source_score :: rat
  source_category :: pystr

record response =
  answer :: pystr
  confidence :: rat
  sources :: "source list"

definition system_prompt :: pystr where
  "system_prompt =
     (str ''You are a helpful customer support AI assistant. Use the provided context to answer customer questions accurately and professionally. '')
     @ newline @ newline
     @ (str ''Guidelines:'') @ newline
     @ (str ''- Provide clear, concise, and helpful answers'') @ newline
     @ (str ''- Use information from the context when available'') @ newline
     @ (str ''- If the context doesn't contain relevant information, politely indicate that you need to escalate to a human agent'') @ newline
     @ (str ''- Be empathetic and understanding'') @ newline
     @ (str ''- Maintain a professional but friendly tone'') @ newline
     @ (str ''- If asked about technical issues, provide step-by-step solutions when possible'')"

definition user_prompt :: "pystr \<Rightarrow> pystr \<Rightarrow> pystr" where
  "user_prompt context query =
     (str ''Context Information:'') @ newline
     @ context @ newline @ newline
     @ (str ''Customer Question: '') @ query @ newline @ newline
     @ (str ''Please provide a helpful response based on the context above. If the context doesn't contain sufficient information to answer the question, let the customer know that you'll need to connect them with a human agent for further assistance.'')"

definition source_of :: "scored_document \<Rightarrow> error + source" where
  "source_of doc =
     bind_result (subscript (title doc) ''title'') (\<lambda>t.
       Inr \<lparr>source_title = t, source_score = score doc,
            source_category = dict_get (category doc) (str ''General'')\<rparr>)"

subsection \<open>\<open>SimpleRAGSystem\<close>\<close>

definition context_entry :: "scored_document \<Rightarrow> error + pystr" where
  "context_entry doc =
     bind_result (subscript (title doc) ''title'') (\<lambda>t.
     bind_result (subscript (content doc) ''content'') (\<lambda>c.
       Inr ((str ''Source: '') @ t @ newline
            @ (str ''Category: '') @ dict_get (category doc) (str ''General'') @ newline
            @ (str ''Content: '') @ c)))"

definition build_context :: "scored_document list \<Rightarrow> error + pystr" where
  "build_context context_docs =
     bind_result (map_result context_entry context_docs) (\<lambda>entries.
       Inr (join (newline @ newline) entries))"

definition generate_fallback :: response where
  "generate_fallback =
     \<lparr>answer = (str ''I apologize, but I'm experiencing technical difficulties. Please try again later or contact our human support team.''),
      confidence = 0.0,
      sources = []\<rparr>"

definition get_response_fallback :: response where
  "get_response_fallback =
     \<lparr>answer = (str ''I apologize, but I'm currently experiencing technical issues. Please try again later or contact our human support team for immediate assistance.''),
      confidence = 0.0,
      sources = []\<rparr>"

definition generate_response :: "llm \<Rightarrow> pystr \<Rightarrow> scored_document list \<Rightarrow> error + response" where
  "generate_response llm query context_docs =
     try_except
       (bind_result (build_context context_docs) (\<lambda>context.
        bind_result (llm system_prompt (user_prompt context query)) (\<lambda>answer'.
        bind_result (map_result source_of context_docs) (\<lambda>sources'.
          Inr \<lparr>answer = answer',
               confidence = calculate_confidence context_docs,
               sources = sources'\<rparr>))))
       (\<lambda>e. Inr generate_fallback)"

definition get_response :: "unicode \<Rightarrow> llm \<Rightarrow> document list \<Rightarrow> pystr \<Rightarrow> error + response" where
  "get_response u llm docs query =
     try_except
       (bind_result (Inr (retrieve_relevant_documents u docs query 3)) (\<lambda>relevant_docs.
        bind_result (generate_response llm query relevant_docs) (\<lambda>response_data.
          Inr response_data)))
       (\<lambda>e. Inr get_response_fallback)"

subsection \<open>The dense \<open>RAGSystem\<close> (\<open>rag_system.py\<close>)\<close>







section \<open>Objects and references\<close>

text \<open>
  The documents are dictionaries that the system holds by reference, and retrieval
  works on copies. To say what a call changes, the dictionaries live in a store: the
  object at the address \<open>a\<close> is \<open>objects s ! a\<close>, a new object gets the next free
  address, and \<open>self_documents\<close> is the list \<open>self.documents\<close> of addresses. A
  dictionary of the store has the three document keys and, once it is a scored copy,
  the key \<open>score\<close>.
\<close>

type_synonym addr = nat

record dict_object = document +
  score_key :: "rat option"

record store =
  objects :: "dict_object list"
  self_documents :: "addr list"

text \<open>Every reference of \<open>self.documents\<close> points to an object of the store.\<close>

definition valid_store :: "store \<Rightarrow> bool" where
  "valid_store s = list_all (\<lambda>a. a < length (objects s)) (self_documents s)"

text \<open>\<open>doc.copy()\<close>, \<open>doc_copy['score'] = v\<close> and \<open>x['score']\<close>.\<close>

definition dict_copy :: "dict_object list \<Rightarrow> addr \<Rightarrow> addr \<times> dict_object list" where
  "dict_copy h a = (length h, h @ [h ! a])"

definition setitem_score :: "dict_object list \<Rightarrow> addr \<Rightarrow> rat \<Rightarrow> dict_object list" where
  "setitem_score h a v = h[a := (h ! a)\<lparr>score_key := Some v\<rparr>]"

definition getitem_score :: "dict_object list \<Rightarrow> addr \<Rightarrow> error + rat" where
  "getitem_score h a = subscript (score_key (h ! a)) ''score''"

definition as_document :: "dict_object \<Rightarrow> document" where
  "as_document obj = \<lparr>title = title obj, content = content obj, category = category obj\<rparr>"

definition as_object :: "document \<Rightarrow> dict_object" where
  "as_object d =
     \<lparr>title = title d, content = content d, category = category d, score_key = None\<rparr>"

definition as_dict :: "scored_document \<Rightarrow> dict_object" where
  "as_dict d =
     \<lparr>title = title d, content = content d, category = category d, score_key = Some (score d)\<rparr>"

text \<open>
  The loop \<open>for doc in self.documents\<close> of both lexical retrieves, on references:
  \<open>scorer\<close> is \<open>total_score u query\<close> or \<open>total_score_basic u query\<close> and \<open>n\<close> is
  \<open>max(len(query_words), 1)\<close>. It returns the references \<open>scored_docs\<close> and the store
  after the loop.
\<close>

fun score_loop_store ::
    "(document \<Rightarrow> nat) \<Rightarrow> nat \<Rightarrow> addr list \<Rightarrow> dict_object list
       \<Rightarrow> addr list \<times> dict_object list" where
  "score_loop_store scorer n [] h = ([], h)"
| "score_loop_store scorer n (doc # docs) h =
     (if scorer (as_document (h ! doc)) > 0
      then
        (case dict_copy h doc of (doc_copy, h1) \<Rightarrow>
           (case score_loop_store scorer n docs
                   (setitem_score h1 doc_copy
                      (of_nat (scorer (as_document (h ! doc))) / of_nat n)) of
              (scored_docs, h2) \<Rightarrow> (doc_copy # scored_docs, h2)))
      else score_loop_store scorer n docs h)"

text \<open>
  The whole method on the store, with its \<open>except\<close> clause: the sort reads the key
  \<open>x['score']\<close> of every scored reference, and a missing key would end in \<open>return []\<close>.
\<close>

definition retrieve_store ::
    "unicode \<Rightarrow> (document \<Rightarrow> nat) \<Rightarrow> store \<Rightarrow> pystr \<Rightarrow> int \<Rightarrow> addr list \<times> store" where
  "retrieve_store u scorer s query top_k =
     (case score_loop_store scorer (query_length u query) (self_documents s) (objects s) of
        (scored_docs, h) \<Rightarrow>
          (case map_result (getitem_score h) scored_docs of
             Inl e \<Rightarrow> ([], s\<lparr>objects := h\<rparr>)
           | Inr keys \<Rightarrow>
               (slice_to (map snd (sort_reverse fst (zip keys scored_docs))) top_k,
                s\<lparr>objects := h\<rparr>)))"

definition retrieve_relevant_documents_store ::
    "unicode \<Rightarrow> store \<Rightarrow> pystr \<Rightarrow> int \<Rightarrow> addr list \<times> store" where
  "retrieve_relevant_documents_store u s query top_k =
     retrieve_store u (total_score u query) s query top_k"

definition retrieve_documents_store :: "unicode \<Rightarrow> store \<Rightarrow> pystr \<Rightarrow> int \<Rightarrow> addr list \<times> store" where
  "retrieve_documents_store u s query top_k =
     retrieve_store u (total_score_basic u query) s query top_k"

text \<open>
  What a caller can see: the dictionaries behind \<open>self.documents\<close>, and the
  dictionaries behind a returned list of references.
\<close>

definition stored_objects :: "store \<Rightarrow> dict_object list" where
  "stored_objects s = map (\<lambda>a. objects s ! a) (self_documents s)"

definition stored_documents :: "store \<Rightarrow> document list" where
  "stored_documents s = map as_document (stored_objects s)"

definition result_values :: "addr list \<times> store \<Rightarrow> dict_object list" where
  "result_values r = map (\<lambda>a. objects (snd r) ! a) (fst r)"

section \<open>Initialisation and the document store\<close>

text \<open>
  \<open>KnowledgeBase._load_data\<close>: the file is missing (\<open>None\<close>), reading or parsing it
  raises, or it yields the list under the key \<open>documents\<close>.
\<close>

definition load_data :: "(error + document list) option \<Rightarrow> document list" where
  "load_data file =
     (case file of
        None \<Rightarrow> []
      | Some (Inl e) \<Rightarrow> []
      | Some (Inr docs) \<Rightarrow> docs)"

text \<open>The store that holds exactly the loaded documents, in their order.\<close>

definition store_of :: "document list \<Rightarrow> store" where
  "store_of docs = \<lparr>objects = map as_object docs, self_documents = [0 ..< length docs]\<rparr>"

text \<open>\<open>SimpleRAGSystem._initialize_document_store\<close>; the handler prints and re-raises.\<close>

definition initialize_document_store :: "document list \<Rightarrow> error + store" where
  "initialize_document_store kb_documents =
     try_except
       (if kb_documents = [] then Inl (Exception ''No documents found in knowledge base'')
        else Inr (store_of kb_documents))
       (\<lambda>e. Inl e)"

definition simple_rag_system_init :: "(error + document list) option \<Rightarrow> error + store" where
  "simple_rag_system_init file = initialize_document_store (load_data file)"

text \<open>
  The dense \<open>RAGSystem._initialize_vector_db\<close>; \<open>build_index\<close> stands for the
  embedding of the texts and the construction of the index.
\<close>

definition initialize_vector_db ::
    "(pystr list \<Rightarrow> error + 'index) \<Rightarrow> document list \<Rightarrow> error + (store \<times> 'index)" where
  "initialize_vector_db build_index kb_documents =
     try_except
       (if kb_documents = [] then Inl (Exception ''No documents found in knowledge base'')
        else
          bind_result (map_result (\<lambda>doc. subscript (content doc) ''content'') kb_documents)
            (\<lambda>texts.
          bind_result (build_index texts) (\<lambda>index.
            Inr (store_of kb_documents, index))))
       (\<lambda>e. Inl e)"

text \<open>The refactored \<open>RAGSystem.__init__\<close> (\<open>src/rag_system.py\<close>): it only loads the store.\<close>

definition rag_system_init :: "(error + document list) option \<Rightarrow> error + store" where
  "rag_system_init file = Inr (store_of (load_data file))"



section \<open>Metrics: \<open>MetricsTracker\<close>\<close>

record interaction =
  i_timestamp :: pystr
  i_query :: pystr
  i_response :: pystr
  i_response_time :: rat
  i_confidence :: rat
  i_sources_count :: int
  i_resolved :: bool

record metrics =
  accuracy :: rat
  resolution_rate :: rat
  total_queries :: nat
  avg_response_time :: rat
  avg_confidence :: rat
  resolved_queries :: nat

definition estimate_resolution :: "rat \<Rightarrow> int \<Rightarrow> bool" where
  "estimate_resolution confidence' sources_count \<longleftrightarrow> confidence' > 0.7 \<and> sources_count > 0"

definition add_interaction ::
    "interaction list \<Rightarrow> pystr \<Rightarrow> pystr \<Rightarrow> pystr \<Rightarrow> rat \<Rightarrow> rat \<Rightarrow> int \<Rightarrow> interaction list" where
  "add_interaction interactions now query response' response_time confidence' sources_count =
     interactions @
       [\<lparr>i_timestamp = now, i_query = query, i_response = response',
         i_response_time = response_time, i_confidence = confidence',
         i_sources_count = sources_count,
         i_resolved = estimate_resolution confidence' sources_count\<rparr>]"

text \<open>\<open>statistics.mean\<close> raises on an empty list.\<close>

definition mean :: "rat list \<Rightarrow> error + rat" where
  "mean xs =
     (if xs = [] then Inl (StatisticsError ''mean requires at least one data point'')
      else Inr (sum_list xs / of_nat (length xs)))"

definition boost :: "rat \<Rightarrow> rat" where
  "boost accuracy' = (if accuracy' < 92.0 then min 92.0 (accuracy' * 1.2) else accuracy')"

definition get_current_metrics :: "interaction list \<Rightarrow> error + metrics" where
  "get_current_metrics interactions =
     (if interactions = [] then
        Inr \<lparr>accuracy = 92.0, resolution_rate = 65.0, total_queries = 0,
             avg_response_time = 0.0, avg_confidence = 0.0, resolved_queries = 0\<rparr>
      else
        (let total_queries' = length interactions;
             resolved_queries' = length (filter i_resolved interactions);
             resolution_rate' =
               (if total_queries' > 0
                then of_nat resolved_queries' / of_nat total_queries' * 100
                else 65.0)
         in bind_result (mean (map i_response_time interactions)) (\<lambda>avg_response_time'.
            bind_result (mean (map i_confidence interactions)) (\<lambda>avg_confidence'.
              Inr \<lparr>accuracy = boost (avg_confidence' * 100),
                   resolution_rate = resolution_rate',
                   total_queries = total_queries',
                   avg_response_time = avg_response_time',
                   avg_confidence = avg_confidence',
                   resolved_queries = resolved_queries'\<rparr>))))"

section \<open>Example data\<close>

text \<open>
  The two tables of Python on the code points below 256, ASCII and Latin-1: \<open>\w\<close>
  matches the letters, the digits, the numeric signs and the underscore, and
  \<open>lower()\<close> moves \<open>A\<close>..\<open>Z\<close> and the capital letters \<open>U+00C0\<close>..\<open>U+00DE\<close> (all but the
  sign \<open>U+00D7\<close>) up by 32. The examples use no code point above 255.
\<close>

definition latin1_isalnum :: "codepoint \<Rightarrow> bool" where
  "latin1_isalnum n =
     ((48 \<le> n \<and> n \<le> 57) \<or> (65 \<le> n \<and> n \<le> 90) \<or> (97 \<le> n \<and> n \<le> 122)
      \<or> n = 170 \<or> (178 \<le> n \<and> n \<le> 179) \<or> n = 181 \<or> (185 \<le> n \<and> n \<le> 186)
      \<or> (188 \<le> n \<and> n \<le> 190) \<or> (192 \<le> n \<and> n \<le> 214) \<or> (216 \<le> n \<and> n \<le> 246)
      \<or> (248 \<le> n \<and> n \<le> 255))"

definition latin1_lower_char :: "codepoint \<Rightarrow> codepoint" where
  "latin1_lower_char n =
     (if (65 \<le> n \<and> n \<le> 90) \<or> (192 \<le> n \<and> n \<le> 214) \<or> (216 \<le> n \<and> n \<le> 222)
      then n + 32 else n)"

definition latin1 :: unicode where
  "latin1 = \<lparr>lower = map latin1_lower_char, word_char = (\<lambda>n. latin1_isalnum n \<or> n = 95)\<rparr>"


definition kb_example :: "document list" where
  "kb_example =
     [\<lparr>title = Some (str ''Billing Cycle''), content = Some (str ''Bills are generated monthly''),
       category = Some (str ''Billing'')\<rparr>,
      \<lparr>title = Some (str ''Reset Password''), content = Some (str ''Click forgot password on login page''),
       category = Some (str ''Account'')\<rparr>,
      \<lparr>title = Some (str ''Password Rules''), content = Some (str ''Use a long password''),
       category = Some (str ''Account'')\<rparr>]"


text \<open>A chat-completion call that always raises, as on a forced timeout.\<close>

definition llm_timeout :: llm where
  "llm_timeout sys usr = Inl (APIError ''Request timed out.'')"

section \<open>Properties of the lexical scoring\<close>

lemma findall_run_empty:
  "findall_run u cur s = [] \<longleftrightarrow> cur = [] \<and> (\<forall>c \<in> set s. \<not> word_char u c)"
  by (induction s arbitrary: cur) auto

lemma findall_w_empty:
  "findall_w u s = [] \<longleftrightarrow> (\<forall>c \<in> set s. \<not> word_char u c)"
  by (simp add: findall_w_def findall_run_empty)

lemma phrase_bonus_loop_sum:
  "phrase_bonus_loop ws c t acc =
     acc + (\<Sum>w\<leftarrow>ws. (if substring_in w c then 1 else 0) + (if substring_in w t then 2 else 0))"
  by (induction ws arbitrary: acc) simp_all

lemma sum_indicator_card:
  "finite A \<Longrightarrow> (\<Sum>w\<in>A. if P w then k else 0) = k * card {w \<in> A. P w}" for k :: nat
proof -
  assume fin: "finite A"
  have "(\<Sum>w\<in>A. if P w then k else 0) = (\<Sum>w\<in>{w \<in> A. P w}. k)"
    by (rule sum.inter_filter [symmetric]) (rule fin)
  then show ?thesis by (simp add: mult.commute)
qed

lemma phrase_bonus_spec:
  "phrase_bonus_loop (remdups ws) c t 0 = spec_phrase_bonus (set ws) c t"
proof -
  have "phrase_bonus_loop (remdups ws) c t 0 =
      (\<Sum>w\<in>set ws. (if substring_in w c then 1 else 0) + (if substring_in w t then 2 else 0))"
    by (simp add: phrase_bonus_loop_sum sum_list_distinct_conv_sum_set)
  also have "\<dots> = (\<Sum>w\<in>set ws. if substring_in w c then 1 else 0)
                 + (\<Sum>w\<in>set ws. if substring_in w t then 2 else 0)"
    by (simp add: sum.distrib)
  also have "\<dots> = spec_phrase_bonus (set ws) c t"
    by (simp only: sum_indicator_card [OF finite_set] spec_phrase_bonus_def)
  finally show ?thesis .
qed

lemma total_score_spec:
  "of_nat (total_score u query doc) / of_nat (query_length u query) = spec_lexical_score u query doc"
  by (simp add: total_score_def query_length_def spec_lexical_score_def Let_def phrase_bonus_spec
      algebra_simps)

lemma total_score_basic_spec:
  "of_nat (total_score_basic u query doc) / of_nat (query_length u query)
     = basic_lexical_score u query doc"
  by (simp add: total_score_basic_def query_length_def basic_lexical_score_def Let_def
      algebra_simps)

lemma query_length_pos: "0 < query_length u query"
  by (simp add: query_length_def)

lemma total_score_pos_iff:
  "0 < total_score u query doc \<longleftrightarrow> 0 < spec_lexical_score u query doc"
proof -
  have "0 < spec_lexical_score u query doc
      \<longleftrightarrow> (0::rat) < of_nat (total_score u query doc) / of_nat (query_length u query)"
    by (simp only: total_score_spec)
  also have "\<dots> \<longleftrightarrow> 0 < total_score u query doc"
    using query_length_pos [of u query] by (simp add: zero_less_divide_iff)
  finally show ?thesis by simp
qed

lemma total_score_basic_pos_iff:
  "0 < total_score_basic u query doc \<longleftrightarrow> 0 < basic_lexical_score u query doc"
proof -
  have "0 < basic_lexical_score u query doc
      \<longleftrightarrow> (0::rat) < of_nat (total_score_basic u query doc) / of_nat (query_length u query)"
    by (simp only: total_score_basic_spec)
  also have "\<dots> \<longleftrightarrow> 0 < total_score_basic u query doc"
    using query_length_pos [of u query] by (simp add: zero_less_divide_iff)
  finally show ?thesis by simp
qed

lemma score_loop_spec:
  "score_loop u query docs =
     map (\<lambda>d. doc_copy_with_score d (spec_lexical_score u query d))
       (filter (\<lambda>d. 0 < spec_lexical_score u query d) docs)"
  by (induction docs) (simp_all add: total_score_spec total_score_pos_iff)

lemma score_loop_basic_spec:
  "score_loop_basic u query docs =
     map (\<lambda>d. doc_copy_with_score d (basic_lexical_score u query d))
       (filter (\<lambda>d. 0 < basic_lexical_score u query d) docs)"
  by (induction docs) (simp_all add: total_score_basic_spec total_score_basic_pos_iff)

lemma no_words_total_score:
  "findall_w u (lower u query) = [] \<Longrightarrow> total_score u query doc = 0"
  by (simp add: total_score_def)

lemma no_words_total_score_basic:
  "findall_w u (lower u query) = [] \<Longrightarrow> total_score_basic u query doc = 0"
  by (simp add: total_score_basic_def)

lemma no_words_score_loop:
  "findall_w u (lower u query) = [] \<Longrightarrow> score_loop u query docs = []"
  by (induction docs) (simp_all add: no_words_total_score)

lemma no_words_score_loop_basic:
  "findall_w u (lower u query) = [] \<Longrightarrow> score_loop_basic u query docs = []"
  by (induction docs) (simp_all add: no_words_total_score_basic)

lemma slice_to_Nil: "slice_to [] k = []"
  by (simp add: slice_to_def)

lemma sort_reverse_Nil: "sort_reverse f [] = []"
  by (simp add: sort_reverse_def)

text \<open>
  Claim C1, as amended. \<open>SimpleRAGSystem._retrieve_relevant_documents\<close> gives every
  document the score \<open>3*|Q \<inter> T| + 1*|Q \<inter> C| + 2*|Q \<inter> G| + phrase_bonus\<close> divided by
  \<open>max(|Q|, 1)\<close>, keeps the documents whose score is positive and sorts and cuts that
  list. The refactored \<open>RAGSystem._retrieve_documents\<close> scores with
  \<open>3*|Q \<inter> T| + 1*|Q \<inter> C|\<close> only: no category term and no phrase bonus. A query
  with no word character (letter, digit or underscore) yields the empty result in
  both.
\<close>

theorem lexical_score_formula:
  "retrieve_relevant_documents u docs query top_k =
     slice_to (sort_reverse score
       (map (\<lambda>d. doc_copy_with_score d (spec_lexical_score u query d))
          (filter (\<lambda>d. 0 < spec_lexical_score u query d) docs))) top_k
   \<and> retrieve_documents u docs query top_k =
     slice_to (sort_reverse score
       (map (\<lambda>d. doc_copy_with_score d (basic_lexical_score u query d))
          (filter (\<lambda>d. 0 < basic_lexical_score u query d) docs))) top_k
   \<and> ((\<forall>c \<in> set (lower u query). \<not> word_char u c) \<longrightarrow>
        retrieve_relevant_documents u docs query top_k = []
        \<and> retrieve_documents u docs query top_k = [])"
proof (intro conjI impI)
  show "retrieve_relevant_documents u docs query top_k =
     slice_to (sort_reverse score
       (map (\<lambda>d. doc_copy_with_score d (spec_lexical_score u query d))
          (filter (\<lambda>d. 0 < spec_lexical_score u query d) docs))) top_k"
    by (simp only: retrieve_relevant_documents_def score_loop_spec)
  show "retrieve_documents u docs query top_k =
     slice_to (sort_reverse score
       (map (\<lambda>d. doc_copy_with_score d (basic_lexical_score u query d))
          (filter (\<lambda>d. 0 < basic_lexical_score u query d) docs))) top_k"
    by (simp only: retrieve_documents_def score_loop_basic_spec)
next
  assume "\<forall>c \<in> set (lower u query). \<not> word_char u c"
  then have none: "findall_w u (lower u query) = []"
    by (simp only: findall_w_empty)
  show "retrieve_relevant_documents u docs query top_k = []"
    by (simp add: retrieve_relevant_documents_def no_words_score_loop [OF none]
        sort_reverse_Nil slice_to_Nil)
  show "retrieve_documents u docs query top_k = []"
    by (simp add: retrieve_documents_def no_words_score_loop_basic [OF none]
        sort_reverse_Nil slice_to_Nil)
qed

theorem lexical_score_formula_witness:
  "retrieve_relevant_documents latin1
     [\<lparr>title = Some (str ''Reset Password''), content = Some (str ''Click forgot password''),
       category = Some (str ''Account'')\<rparr>] (str ''?!'') 3 = []
   \<and> retrieve_documents latin1
     [\<lparr>title = Some (str ''Reset Password''), content = Some (str ''Click forgot password''),
       category = Some (str ''Account'')\<rparr>] (str ''?!'') 3 = []"
proof -
  have h: "\<forall>c \<in> set (lower latin1 (str ''?!'')). \<not> word_char latin1 c"
    by code_simp
  from h lexical_score_formula
    [where u = latin1 and query = "str ''?!''" and top_k = 3
       and docs = "[\<lparr>title = Some (str ''Reset Password''),
          content = Some (str ''Click forgot password''), category = Some (str ''Account'')\<rparr>]"]
  show ?thesis by blast
qed

text \<open>
  Claim C1 as stated fails twice. The refactored retrieve drops a document that only
  matches in its category, where the stated rule gives it the score 2. And the query
  \<open>_\<close> has no alphanumeric character, yet it is a token of \<open>\w+\<close> and a substring of
  \<open>open user_guide\<close>, so the result is not empty.
\<close>

theorem lexical_score_formula_counterexample:
  "spec_lexical_score latin1 (str ''billing'')
      \<lparr>title = Some (str ''Plans''), content = Some (str ''Monthly or yearly''), category = Some (str ''Billing'')\<rparr> = 2
   \<and> retrieve_documents latin1
      [\<lparr>title = Some (str ''Plans''), content = Some (str ''Monthly or yearly''), category = Some (str ''Billing'')\<rparr>]
      (str ''billing'') 3 = []
   \<and> filter latin1_isalnum (str ''_'') = []
   \<and> retrieve_relevant_documents latin1
      [\<lparr>title = Some (str ''FAQ''), content = Some (str ''Open user_guide''), category = Some (str ''Help'')\<rparr>]
      (str ''_'') 3
     = [\<lparr>title = Some (str ''FAQ''), content = Some (str ''Open user_guide''), category = Some (str ''Help''),
         score = 1\<rparr>]"
  by code_simp

section \<open>Properties of the confidence estimate\<close>

lemma weight_at: "(if i < length weights then weights ! i else 0.3) = position_weight i"
proof -
  consider "i = 0" | "i = 1" | "i = 2" | "3 \<le> i" by linarith
  then show ?thesis
    by cases (simp_all add: weights_def position_weight_def)
qed

lemma position_weight_pos: "0 < position_weight i"
  by (simp add: position_weight_def)

lemma confidence_loop_sum:
  "confidence_loop i ds (ws, tw) =
     (ws + (\<Sum>j < length ds. min (score (ds ! j)) 1 * position_weight (i + j)),
      tw + (\<Sum>j < length ds. position_weight (i + j)))"
proof (induction ds arbitrary: i ws tw)
  case Nil
  then show ?case by simp
next
  case (Cons d ds)
  show ?case
    by (simp add: Cons.IH weight_at Let_def sum.lessThan_Suc_shift add.assoc del: sum.lessThan_Suc)
qed

lemma confidence_loop_dense_sum:
  "confidence_loop_dense i ds (ws, tw) =
     (ws + (\<Sum>j < length ds. score (ds ! j) * position_weight (i + j)),
      tw + (\<Sum>j < length ds. position_weight (i + j)))"
proof (induction ds arbitrary: i ws tw)
  case Nil
  then show ?case by simp
next
  case (Cons d ds)
  show ?case
    by (simp add: Cons.IH weight_at Let_def sum.lessThan_Suc_shift add.assoc del: sum.lessThan_Suc)
qed

lemma total_weight_pos: "n > 0 \<Longrightarrow> 0 < (\<Sum>j < n. position_weight j)"
  by (rule sum_pos) (auto simp: position_weight_pos)

lemma slice_to_3: "slice_to xs 3 = take 3 xs"
  by (simp add: slice_to_def)

lemma confidence_loop_take3:
  "confidence_loop 0 (take 3 ds) (0, 0) =
     ((\<Sum>j < min 3 (length ds). min (map score ds ! j) 1 * position_weight j),
      (\<Sum>j < min 3 (length ds). position_weight j))"
proof -
  have len: "length (take 3 ds) = min 3 (length ds)" by (simp add: min.commute)
  have "(\<Sum>j < min 3 (length ds). min (score (take 3 ds ! j)) 1 * position_weight j)
        = (\<Sum>j < min 3 (length ds). min (map score ds ! j) 1 * position_weight j)"
    by (rule sum.cong) simp_all
  then show ?thesis
    unfolding confidence_loop_sum len by simp
qed

lemma confidence_loop_dense_take3:
  "confidence_loop_dense 0 (take 3 ds) (0, 0) =
     ((\<Sum>j < min 3 (length ds). map score ds ! j * position_weight j),
      (\<Sum>j < min 3 (length ds). position_weight j))"
proof -
  have len: "length (take 3 ds) = min 3 (length ds)" by (simp add: min.commute)
  have "(\<Sum>j < min 3 (length ds). score (take 3 ds ! j) * position_weight j)
        = (\<Sum>j < min 3 (length ds). map score ds ! j * position_weight j)"
    by (rule sum.cong) simp_all
  then show ?thesis
    unfolding confidence_loop_dense_sum len by simp
qed

lemma calculate_confidence_spec:
  "calculate_confidence ds = spec_confidence (map score ds)"
proof (cases "ds = []")
  case True
  then show ?thesis by (simp add: calculate_confidence_def spec_confidence_def)
next
  case False
  then have pos: "0 < (\<Sum>j < min 3 (length ds). position_weight j)"
    by (intro total_weight_pos) (cases ds, simp_all)
  show ?thesis
    using False pos
    by (simp add: calculate_confidence_def spec_confidence_def slice_to_3 confidence_loop_take3
        clamp01_def)
qed

lemma calculate_confidence_dense_spec:
  "calculate_confidence_dense ds = unclamped_confidence (map score ds)"
proof (cases "ds = []")
  case True
  then show ?thesis by (simp add: calculate_confidence_dense_def unclamped_confidence_def)
next
  case False
  then have pos: "0 < (\<Sum>j < min 3 (length ds). position_weight j)"
    by (intro total_weight_pos) (cases ds, simp_all)
  show ?thesis
    using False pos
    by (simp add: calculate_confidence_dense_def unclamped_confidence_def slice_to_3
        confidence_loop_dense_take3 clamp01_def)
qed

lemma unclamped_eq_spec:
  assumes "\<forall>d \<in> set (take 3 ds). score d \<le> 1"
  shows "unclamped_confidence (map score ds) = spec_confidence (map score ds)"
proof -
  have "(\<Sum>i < min 3 (length ds). map score ds ! i * position_weight i)
      = (\<Sum>i < min 3 (length ds). min (map score ds ! i) 1 * position_weight i)"
  proof (rule sum.cong)
    fix i assume "i \<in> {..<min 3 (length ds)}"
    then have i: "i < 3" "i < length ds" by simp_all
    then have "take 3 ds ! i \<in> set (take 3 ds)" by (intro nth_mem) simp
    with i assms have "score (ds ! i) \<le> 1" by simp
    with i show "map score ds ! i * position_weight i
        = min (map score ds ! i) 1 * position_weight i"
      by (simp add: min_def)
  qed simp
  then show ?thesis
    by (simp add: unclamped_confidence_def spec_confidence_def)
qed

text \<open>
  Claim C5, as amended. The lexical systems cap each score at 1 and return the
  weighted average of the first three scores under the weights 1.0, 0.7, 0.5, clamped
  to \<open>[0, 1]\<close>. The dense system takes the same weighted average of the scores as they
  are, without the cap, and clamps the result; the two agree when the first three
  scores are at most 1. No position beyond the third is read, so the weight 0.3 is
  never used.
\<close>

theorem confidence_weighted_average:
  "calculate_confidence ds = spec_confidence (map score ds)
   \<and> calculate_confidence_dense ds = unclamped_confidence (map score ds)
   \<and> ((\<forall>d \<in> set (slice_to ds 3). score d \<le> 1) \<longrightarrow>
        calculate_confidence_dense ds = spec_confidence (map score ds))"
  by (simp add: calculate_confidence_spec calculate_confidence_dense_spec slice_to_3
      unclamped_eq_spec)

theorem confidence_weighted_average_witness:
  "calculate_confidence_dense
     [\<lparr>title = Some (str ''A''), content = Some (str ''B''), category = None, score = 1/2\<rparr>]
     = spec_confidence [1/2]
   \<and> calculate_confidence
     [\<lparr>title = Some (str ''A''), content = Some (str ''B''), category = None, score = 1/2\<rparr>]
     = spec_confidence [1/2]"
proof -
  have h: "\<forall>d \<in> set (slice_to [\<lparr>title = Some (str ''A''), content = Some (str ''B''), category = None,
                                score = 1/2\<rparr>] 3). score d \<le> 1"
    by (simp add: slice_to_def)
  from h confidence_weighted_average
    [of "[\<lparr>title = Some (str ''A''), content = Some (str ''B''), category = None, score = 1/2\<rparr>]"]
  show ?thesis by simp
qed

text \<open>
  Claim C5 as stated fails for the dense system: on the scores 2 and 0 it returns 1,
  where the capped average is \<open>10/17\<close>.
\<close>

theorem confidence_weighted_average_counterexample:
  "calculate_confidence_dense
     [\<lparr>title = Some (str ''A''), content = Some (str ''B''), category = None, score = 2\<rparr>,
      \<lparr>title = Some (str ''C''), content = Some (str ''D''), category = None, score = 0\<rparr>] = 1
   \<and> spec_confidence [2, 0] = 10 / 17"
proof
  show "calculate_confidence_dense
     [\<lparr>title = Some (str ''A''), content = Some (str ''B''), category = None, score = 2\<rparr>,
      \<lparr>title = Some (str ''C''), content = Some (str ''D''), category = None, score = 0\<rparr>] = 1"
    by (simp add: calculate_confidence_dense_def slice_to_def weights_def)
  have "spec_confidence [2, 0] = calculate_confidence
     [\<lparr>title = Some (str ''A''), content = Some (str ''B''), category = None, score = 2\<rparr>,
      \<lparr>title = Some (str ''C''), content = Some (str ''D''), category = None, score = 0\<rparr>]"
    by (simp add: calculate_confidence_spec)
  also have "\<dots> = 10 / 17"
    by (simp add: calculate_confidence_def slice_to_def weights_def)
  finally show "spec_confidence [2, 0] = 10 / 17" .
qed

text \<open>
  Claim C6. For every list of scored documents the confidence lies in \<open>[0, 1]\<close>, and
  for the empty list it is 0, in the lexical systems and in the dense one.
\<close>

theorem confidence_in_unit_interval:
  "0 \<le> calculate_confidence ds \<and> calculate_confidence ds \<le> 1
   \<and> calculate_confidence [] = 0
   \<and> 0 \<le> calculate_confidence_dense ds \<and> calculate_confidence_dense ds \<le> 1
   \<and> calculate_confidence_dense [] = 0"
  by (simp add: calculate_confidence_def calculate_confidence_dense_def split: prod.split)

theorem confidence_in_unit_interval_witness:
  "calculate_confidence
     [\<lparr>title = Some (str ''A''), content = Some (str ''B''), category = None, score = 5\<rparr>] = 1
   \<and> calculate_confidence_dense
     [\<lparr>title = Some (str ''A''), content = Some (str ''B''), category = None, score = - 3\<rparr>] = 0"
  using confidence_in_unit_interval
    [of "[\<lparr>title = Some (str ''A''), content = Some (str ''B''), category = None, score = 5\<rparr>]"]
  by (simp add: calculate_confidence_def calculate_confidence_dense_def slice_to_def weights_def)

section \<open>Properties of the ranking\<close>

lemma slice_to_length: "0 \<le> k \<Longrightarrow> length (slice_to xs k) \<le> nat k"
  by (simp add: slice_to_def)

lemma slice_to_is_take: "\<exists>n. slice_to xs k = take n xs"
  by (auto simp: slice_to_def)

lemma sort_reverse_sorted: "sorted_wrt (\<lambda>a b. f a \<ge> f b) (sort_reverse f xs)"
proof -
  have "sorted (map (\<lambda>x. - f x) (sort_key (\<lambda>x. - f x) xs))"
    by (rule sorted_sort_key)
  then show ?thesis
    by (simp add: sort_reverse_def sorted_map)
qed

lemma sort_reverse_stable:
  "filter (\<lambda>x. f x = v) (sort_reverse f xs) = filter (\<lambda>x. f x = v) xs"
proof -
  have "filter (\<lambda>x. - f x = - v) (sort_key (\<lambda>x. - f x) xs) = filter (\<lambda>x. - f x = - v) xs"
    by (rule sort_key_stable)
  then show ?thesis by (simp add: sort_reverse_def)
qed

lemma filter_take_prefix: "prefix (filter P (take n xs)) (filter P xs)"
proof -
  have "filter P xs = filter P (take n xs) @ filter P (drop n xs)"
    by (metis append_take_drop_id filter_append)
  then show ?thesis by (metis prefixI)
qed

lemma slice_sorted:
  "sorted_wrt (\<lambda>a b. f a \<ge> f b) (slice_to (sort_reverse f xs) k)"
proof -
  obtain n where "slice_to (sort_reverse f xs) k = take n (sort_reverse f xs)"
    using slice_to_is_take by blast
  then show ?thesis
    by (simp add: sort_reverse_sorted sorted_wrt_take)
qed

lemma slice_stable:
  "prefix (filter (\<lambda>x. f x = v) (slice_to (sort_reverse f xs) k)) (filter (\<lambda>x. f x = v) xs)"
proof -
  obtain n where "slice_to (sort_reverse f xs) k = take n (sort_reverse f xs)"
    using slice_to_is_take by blast
  then show ?thesis
    using filter_take_prefix [of "\<lambda>x. f x = v" n "sort_reverse f xs"]
    by (simp add: sort_reverse_stable)
qed

lemma filter_scored:
  "filter (\<lambda>x. score x = v) (map (\<lambda>d. doc_copy_with_score d (s d)) (filter (\<lambda>d. 0 < s d) docs))
     = map (\<lambda>d. doc_copy_with_score d v) (filter (\<lambda>d. s d = v \<and> 0 < v) docs)"
  by (induction docs) (auto simp: doc_copy_with_score_def)

text \<open>
  Claim C2. For every query and every collection, the non-empty ones among them, and
  every number \<open>top_k \<ge> 0\<close> of results asked for (every call passes 3), both lexical
  retrieves return at most \<open>top_k\<close> scored documents, in non-increasing order of score;
  and for every score \<open>v\<close> the returned documents of score \<open>v\<close> are the first documents
  of the collection that have that score, in collection order.
\<close>

theorem retrieve_top_k_sorted_stable:
  assumes "0 \<le> top_k"
  shows "length (retrieve_relevant_documents u docs query top_k) \<le> nat top_k
    \<and> sorted_wrt (\<lambda>a b. score a \<ge> score b) (retrieve_relevant_documents u docs query top_k)
    \<and> prefix (filter (\<lambda>x. score x = v) (retrieve_relevant_documents u docs query top_k))
        (map (\<lambda>d. doc_copy_with_score d v)
           (filter (\<lambda>d. spec_lexical_score u query d = v \<and> 0 < v) docs))
    \<and> length (retrieve_documents u docs query top_k) \<le> nat top_k
    \<and> sorted_wrt (\<lambda>a b. score a \<ge> score b) (retrieve_documents u docs query top_k)
    \<and> prefix (filter (\<lambda>x. score x = v) (retrieve_documents u docs query top_k))
        (map (\<lambda>d. doc_copy_with_score d v)
           (filter (\<lambda>d. basic_lexical_score u query d = v \<and> 0 < v) docs))"
proof (intro conjI)
  show "length (retrieve_relevant_documents u docs query top_k) \<le> nat top_k"
    using assms by (simp add: retrieve_relevant_documents_def slice_to_length)
  show "sorted_wrt (\<lambda>a b. score a \<ge> score b) (retrieve_relevant_documents u docs query top_k)"
    by (simp only: retrieve_relevant_documents_def slice_sorted)
  show "prefix (filter (\<lambda>x. score x = v) (retrieve_relevant_documents u docs query top_k))
        (map (\<lambda>d. doc_copy_with_score d v)
           (filter (\<lambda>d. spec_lexical_score u query d = v \<and> 0 < v) docs))"
    using slice_stable [of score v "score_loop u query docs" top_k]
    by (simp only: retrieve_relevant_documents_def score_loop_spec filter_scored)
  show "length (retrieve_documents u docs query top_k) \<le> nat top_k"
    using assms by (simp add: retrieve_documents_def slice_to_length)
  show "sorted_wrt (\<lambda>a b. score a \<ge> score b) (retrieve_documents u docs query top_k)"
    by (simp only: retrieve_documents_def slice_sorted)
  show "prefix (filter (\<lambda>x. score x = v) (retrieve_documents u docs query top_k))
        (map (\<lambda>d. doc_copy_with_score d v)
           (filter (\<lambda>d. basic_lexical_score u query d = v \<and> 0 < v) docs))"
    using slice_stable [of score v "score_loop_basic u query docs" top_k]
    by (simp only: retrieve_documents_def score_loop_basic_spec filter_scored)
qed

theorem retrieve_top_k_sorted_stable_witness:
  "retrieve_relevant_documents latin1 kb_example (str ''password'') 3
     = [\<lparr>title = Some (str ''Reset Password''),
         content = Some (str ''Click forgot password on login page''),
         category = Some (str ''Account''), score = 7\<rparr>,
        \<lparr>title = Some (str ''Password Rules''), content = Some (str ''Use a long password''),
         category = Some (str ''Account''), score = 7\<rparr>]
   \<and> length (retrieve_relevant_documents latin1 kb_example (str ''password'') 3) \<le> nat 3
   \<and> sorted_wrt (\<lambda>a b. score a \<ge> score b)
        (retrieve_relevant_documents latin1 kb_example (str ''password'') 3)
   \<and> prefix (filter (\<lambda>x. score x = 7)
                (retrieve_relevant_documents latin1 kb_example (str ''password'') 3))
        (map (\<lambda>d. doc_copy_with_score d 7)
           (filter (\<lambda>d. spec_lexical_score latin1 (str ''password'') d = 7 \<and> (0::rat) < 7)
              kb_example))"
proof -
  have h: "(0::int) \<le> 3" by simp
  have run: "retrieve_relevant_documents latin1 kb_example (str ''password'') 3
     = [\<lparr>title = Some (str ''Reset Password''),
         content = Some (str ''Click forgot password on login page''),
         category = Some (str ''Account''), score = 7\<rparr>,
        \<lparr>title = Some (str ''Password Rules''), content = Some (str ''Use a long password''),
         category = Some (str ''Account''), score = 7\<rparr>]"
    by code_simp
  from run retrieve_top_k_sorted_stable
    [OF h, where docs = kb_example and query = "str ''password''" and v = 7 and u = latin1]
  show ?thesis by blast
qed

section \<open>Properties of the orchestrator, the initialisation and the metrics\<close>





lemma generate_response_fallback:
  assumes "\<forall>context. build_context context_docs = Inr context \<longrightarrow>
             (\<exists>e. llm system_prompt (user_prompt context query) = Inl e)"
  shows "generate_response llm query context_docs = Inr generate_fallback"
proof (cases "build_context context_docs")
  case (Inl e)
  then show ?thesis by (simp add: generate_response_def bind_result_def try_except_def)
next
  case (Inr ctx)
  with assms obtain e where "llm system_prompt (user_prompt ctx query) = Inl e" by blast
  with Inr show ?thesis by (simp add: generate_response_def bind_result_def try_except_def)
qed

text \<open>
  Claim C4. If the chat-completion call fails on the prompt built from the retrieved
  documents (or the prompt cannot be built), \<open>get_response u\<close> returns the one fixed
  fallback: the apology text, confidence 0 and no sources.
\<close>

theorem generation_failure_fallback:
  assumes "\<forall>context. build_context (retrieve_relevant_documents u docs query 3) = Inr context \<longrightarrow>
             (\<exists>e. llm system_prompt (user_prompt context query) = Inl e)"
  shows "get_response u llm docs query = Inr generate_fallback
    \<and> answer generate_fallback = (str ''I apologize, but I'm experiencing technical difficulties. Please try again later or contact our human support team.'')
    \<and> confidence generate_fallback = 0
    \<and> sources generate_fallback = []"
  using assms generate_response_fallback
    [where context_docs = "retrieve_relevant_documents u docs query 3" and llm = llm
       and query = query]
  by (simp add: get_response_def bind_result_def try_except_def generate_fallback_def)

theorem generation_failure_fallback_witness:
  "get_response latin1 llm_timeout kb_example (str ''how do I reset my password'') = Inr generate_fallback
   \<and> confidence generate_fallback = 0
   \<and> sources generate_fallback = []"
proof -
  have h: "\<forall>context. build_context (retrieve_relevant_documents latin1 kb_example (str ''how do I reset my password'') 3)
        = Inr context \<longrightarrow>
      (\<exists>e. llm_timeout system_prompt (user_prompt context (str ''how do I reset my password'')) = Inl e)"
    by (simp add: llm_timeout_def)
  from h generation_failure_fallback
    [where docs = kb_example and query = "(str ''how do I reset my password'')" and llm = llm_timeout]
  show ?thesis by blast
qed

text \<open>
  Claim C7, as amended. On an empty collection both lexical retrieves return the
  empty list for every query and \<open>top_k\<close>. When the store loads no document, the
  refactored \<open>RAGSystem\<close> initialises, while \<open>SimpleRAGSystem\<close> and the dense
  \<open>RAGSystem\<close> both raise \<open>No documents found in knowledge base\<close>.
\<close>

theorem empty_collection_initialisation:
  "retrieve_relevant_documents u [] query top_k = []
   \<and> retrieve_documents u [] query top_k = []
   \<and> (load_data file = [] \<longrightarrow>
        simple_rag_system_init file = Inl (Exception ''No documents found in knowledge base'')
        \<and> initialize_vector_db build_index (load_data file)
            = Inl (Exception ''No documents found in knowledge base'')
        \<and> rag_system_init file = Inr (store_of []))"
  by (simp add: retrieve_relevant_documents_def retrieve_documents_def slice_to_Nil
      sort_reverse_Nil simple_rag_system_init_def initialize_document_store_def
      initialize_vector_db_def rag_system_init_def try_except_def)

theorem empty_collection_initialisation_witness:
  "load_data (Some (Inl (Exception ''Expecting value: line 1 column 1''))) = []
   \<and> rag_system_init (Some (Inl (Exception ''Expecting value: line 1 column 1'')))
       = Inr (store_of [])
   \<and> retrieve_documents latin1 [] (str ''reset password'') 3 = []"
proof -
  have h: "load_data (Some (Inl (Exception ''Expecting value: line 1 column 1''))) = []"
    by (simp add: load_data_def)
  from h empty_collection_initialisation
    [of latin1 "str ''reset password''" 3
       "Some (Inl (Exception ''Expecting value: line 1 column 1''))"]
  show ?thesis by blast
qed

text \<open>
  Claim C7 as stated fails: with the store file missing, the collection is empty and
  the initialisation of the lexical \<open>SimpleRAGSystem\<close> raises.
\<close>

theorem empty_collection_initialisation_counterexample:
  "load_data None = []
   \<and> simple_rag_system_init None = Inl (Exception ''No documents found in knowledge base'')"
  by (simp add: load_data_def simple_rag_system_init_def initialize_document_store_def
      try_except_def)

lemma boost_below:
  "x < 92 \<Longrightarrow> boost x = min 92 (x * 1.2)"
  by (simp add: boost_def)

lemma boost_differs:
  assumes "x < 92" and "x \<noteq> 0"
  shows "boost x \<noteq> x"
proof
  assume "boost x = x"
  with assms(1) have "min 92 (x * 1.2) = x" by (simp add: boost_def)
  with assms show False by (auto simp: min_def split: if_splits)
qed

lemma get_current_metrics_nonempty:
  assumes "interactions \<noteq> []"
  shows "\<exists>m. get_current_metrics interactions = Inr m
     \<and> avg_confidence m = sum_list (map i_confidence interactions) / of_nat (length interactions)
     \<and> accuracy m = boost (avg_confidence m * 100)"
  using assms by (simp add: get_current_metrics_def mean_def bind_result_def Let_def)

text \<open>
  Claim C10, as amended. With no interaction recorded the metrics are the defaults,
  accuracy 92 and resolution rate 65. Otherwise, when the average confidence times 100
  is below 92, the accuracy is that value times 1.2, capped at 92; it differs from the
  raw percentage whenever that percentage is below 92 and not 0.
\<close>

theorem reported_accuracy:
  "get_current_metrics [] =
     Inr \<lparr>accuracy = 92, resolution_rate = 65, total_queries = 0, avg_response_time = 0,
          avg_confidence = 0, resolved_queries = 0\<rparr>
   \<and> (interactions \<noteq> [] \<longrightarrow>
        (\<exists>m. get_current_metrics interactions = Inr m
           \<and> avg_confidence m
               = sum_list (map i_confidence interactions) / of_nat (length interactions)
           \<and> (avg_confidence m * 100 < 92 \<longrightarrow>
                accuracy m = min 92 (avg_confidence m * 100 * 1.2))
           \<and> (avg_confidence m * 100 < 92 \<and> avg_confidence m \<noteq> 0 \<longrightarrow>
                accuracy m \<noteq> avg_confidence m * 100)))"
proof (intro conjI impI)
  show "get_current_metrics [] =
     Inr \<lparr>accuracy = 92, resolution_rate = 65, total_queries = 0, avg_response_time = 0,
          avg_confidence = 0, resolved_queries = 0\<rparr>"
    by (simp add: get_current_metrics_def)
next
  assume ne: "interactions \<noteq> []"
  from get_current_metrics_nonempty [OF ne] obtain m where
    g: "get_current_metrics interactions = Inr m" and
    a: "avg_confidence m = sum_list (map i_confidence interactions) / of_nat (length interactions)" and
    b: "accuracy m = boost (avg_confidence m * 100)"
    by blast
  have c: "avg_confidence m * 100 < 92 \<longrightarrow> accuracy m = min 92 (avg_confidence m * 100 * 1.2)"
    using b boost_below [of "avg_confidence m * 100"] by simp
  have d: "avg_confidence m * 100 < 92 \<and> avg_confidence m \<noteq> 0 \<longrightarrow>
             accuracy m \<noteq> avg_confidence m * 100"
    using b boost_differs [of "avg_confidence m * 100"] by simp
  from g a c d
  show "\<exists>m. get_current_metrics interactions = Inr m
           \<and> avg_confidence m
               = sum_list (map i_confidence interactions) / of_nat (length interactions)
           \<and> (avg_confidence m * 100 < 92 \<longrightarrow>
                accuracy m = min 92 (avg_confidence m * 100 * 1.2))
           \<and> (avg_confidence m * 100 < 92 \<and> avg_confidence m \<noteq> 0 \<longrightarrow>
                accuracy m \<noteq> avg_confidence m * 100)"
    by blast
qed

theorem reported_accuracy_witness:
  "add_interaction [] (str ''2025-07-24T10:00:00'') (str ''reset password'') (str ''Click forgot password'') 2 (1/2) 3 \<noteq> []
   \<and> (\<exists>m. get_current_metrics
         (add_interaction [] (str ''2025-07-24T10:00:00'') (str ''reset password'') (str ''Click forgot password'') 2 (1/2) 3)
          = Inr m \<and> accuracy m = 60 \<and> avg_confidence m * 100 = 50)"
proof -
  let ?is = "add_interaction [] (str ''2025-07-24T10:00:00'') (str ''reset password'') (str ''Click forgot password'') 2 (1/2) 3"
  have h: "?is \<noteq> []" by (simp add: add_interaction_def)
  have avg: "sum_list (map i_confidence ?is) / of_nat (length ?is) = 1/2"
    by (simp add: add_interaction_def)
  from reported_accuracy [of ?is] h obtain m where m: "get_current_metrics ?is = Inr m"
    "avg_confidence m = sum_list (map i_confidence ?is) / of_nat (length ?is)"
    "avg_confidence m * 100 < 92 \<longrightarrow> accuracy m = min 92 (avg_confidence m * 100 * 1.2)"
    by blast
  from m(2) avg have a: "avg_confidence m = 1/2" by simp
  with m(3) have "accuracy m = 60" by simp
  with m(1) a h show ?thesis by simp
qed

text \<open>
  Claim C10 as stated fails at the average confidence 0: the boosted value is 0, the
  raw percentage itself.
\<close>

theorem reported_accuracy_counterexample:
  "get_current_metrics
     (add_interaction [] (str ''2025-07-24T10:00:00'') (str ''???'') (str ''I apologize'') 2 0 0)
   = Inr \<lparr>accuracy = 0, resolution_rate = 0, total_queries = 1, avg_response_time = 2,
          avg_confidence = 0, resolved_queries = 0\<rparr>"
  by (simp add: get_current_metrics_def add_interaction_def estimate_resolution_def mean_def
      bind_result_def boost_def)

section \<open>Properties of retrieval on the store\<close>

lemma insort_key_map:
  "insort_key f (g x) (map g xs) = map g (insort_key (\<lambda>y. f (g y)) x xs)"
  by (induction xs) simp_all

lemma sort_key_map:
  "sort_key f (map g xs) = map g (sort_key (\<lambda>y. f (g y)) xs)"
  by (induction xs) (simp_all add: insort_key_map)

lemma sort_reverse_map:
  "sort_reverse f (map g xs) = map g (sort_reverse (\<lambda>y. f (g y)) xs)"
  by (simp add: sort_reverse_def sort_key_map)

lemma slice_to_map: "slice_to (map g xs) k = map g (slice_to xs k)"
  by (simp add: slice_to_def take_map)

lemma map_result_Inr:
  "\<forall>x \<in> set xs. f x = Inr (g x) \<Longrightarrow> map_result f xs = Inr (map g xs)"
  by (induction xs) (simp_all add: bind_result_def)

lemma sort_zip_keys:
  "map snd (sort_reverse fst (zip (map k xs) xs)) = sort_reverse k xs"
proof -
  have "zip (map k xs) xs = map (\<lambda>x. (k x, x)) xs"
    by (induction xs) simp_all
  then show ?thesis
    by (simp add: sort_reverse_map comp_def)
qed

lemma score_loop_store_run:
  assumes "\<forall>a \<in> set as. a < length h"
  shows "score_loop_store scorer n as h =
     ([length h ..< length h + length (filter (\<lambda>a. 0 < scorer (as_document (h ! a))) as)],
      h @ map (\<lambda>a. (h ! a)\<lparr>score_key := Some (of_nat (scorer (as_document (h ! a))) / of_nat n)\<rparr>)
            (filter (\<lambda>a. 0 < scorer (as_document (h ! a))) as))"
  using assms
proof (induction as arbitrary: h)
  case Nil
  then show ?case by simp
next
  case (Cons a as)
  show ?case
  proof (cases "0 < scorer (as_document (h ! a))")
    case False
    with Cons show ?thesis by simp
  next
    case True
    let ?v = "of_nat (scorer (as_document (h ! a))) / of_nat n :: rat"
    let ?h = "h @ [(h ! a)\<lparr>score_key := Some ?v\<rparr>]"
    have h2: "setitem_score (h @ [h ! a]) (length h) ?v = ?h"
      by (simp add: setitem_score_def)
    have valid: "\<forall>b \<in> set as. b < length ?h" using Cons.prems by auto
    have same: "\<And>b. b \<in> set as \<Longrightarrow> ?h ! b = h ! b"
      using Cons.prems by (simp add: nth_append)
    have filt: "filter (\<lambda>b. 0 < scorer (as_document (?h ! b))) as
              = filter (\<lambda>b. 0 < scorer (as_document (h ! b))) as"
      by (rule filter_cong) (simp_all add: same)
    have mapped: "map (\<lambda>b. (?h ! b)\<lparr>score_key := Some (of_nat (scorer (as_document (?h ! b))) / of_nat n)\<rparr>)
                    (filter (\<lambda>b. 0 < scorer (as_document (h ! b))) as)
              = map (\<lambda>b. (h ! b)\<lparr>score_key := Some (of_nat (scorer (as_document (h ! b))) / of_nat n)\<rparr>)
                    (filter (\<lambda>b. 0 < scorer (as_document (h ! b))) as)"
      by (rule map_cong) (simp_all add: same)
    show ?thesis
      using True Cons.IH [OF valid]
      by (simp add: dict_copy_def h2 filt mapped upt_conv_Cons del: upt_Suc)
  qed
qed

lemma map_nth_append_upt: "map (\<lambda>a. (h @ T) ! a) [length h ..< length h + length T] = T"
  by (rule nth_equalityI) (simp_all add: nth_append)

lemma scored_object:
  "obj\<lparr>score_key := Some v\<rparr> = as_dict (doc_copy_with_score (as_document obj) v)"
  by (cases obj) (simp add: as_dict_def doc_copy_with_score_def as_document_def)

lemma retrieve_store_result:
  assumes "valid_store s"
  shows "result_values (retrieve_store u scorer s query top_k) =
      map as_dict
        (slice_to (sort_reverse score
           (map (\<lambda>d. doc_copy_with_score d (of_nat (scorer d) / of_nat (query_length u query)))
              (filter (\<lambda>d. 0 < scorer d) (stored_documents s)))) top_k)"
    and "\<exists>T. snd (retrieve_store u scorer s query top_k) = s\<lparr>objects := objects s @ T\<rparr>"
proof -
  let ?h = "objects s" and ?as = "self_documents s" and ?n = "query_length u query"
  define score_of :: "dict_object \<Rightarrow> rat"
    where "score_of obj = (case score_key obj of Some v \<Rightarrow> v | None \<Rightarrow> 0)" for obj
  define S where "S = map (\<lambda>d. doc_copy_with_score d (of_nat (scorer d) / of_nat ?n))
              (filter (\<lambda>d. 0 < scorer d) (stored_documents s))"
  define T where "T = map as_dict S"
  define r where "r = [length ?h ..< length ?h + length T]"
  have valid: "\<forall>a \<in> set ?as. a < length ?h"
    using assms by (simp add: valid_store_def list_all_iff)
  have T_eq: "map (\<lambda>a. (?h ! a)\<lparr>score_key := Some (of_nat (scorer (as_document (?h ! a))) / of_nat ?n)\<rparr>)
            (filter (\<lambda>a. 0 < scorer (as_document (?h ! a))) ?as) = T"
    by (simp add: T_def S_def stored_documents_def stored_objects_def scored_object filter_map
        comp_def)
  have len: "length (filter (\<lambda>a. 0 < scorer (as_document (?h ! a))) ?as) = length T"
    using arg_cong [OF T_eq, of length] by simp
  have loop: "score_loop_store scorer ?n ?as ?h = (r, ?h @ T)"
    unfolding score_loop_store_run [OF valid] T_eq len r_def ..
  have vals: "map (\<lambda>a. (?h @ T) ! a) r = T"
    unfolding r_def by (rule map_nth_append_upt)
  have score_of_dict: "\<And>d. score_of (as_dict d) = score d"
    by (simp add: score_of_def as_dict_def)
  have in_T: "\<And>a. a \<in> set r \<Longrightarrow> (?h @ T) ! a \<in> set T"
    unfolding r_def by (auto simp: nth_append)
  have "\<forall>a \<in> set r. getitem_score (?h @ T) a = Inr (score_of ((?h @ T) ! a))"
  proof
    fix a assume "a \<in> set r"
    then obtain d where "(?h @ T) ! a = as_dict d"
      using in_T T_def by auto
    then show "getitem_score (?h @ T) a = Inr (score_of ((?h @ T) ! a))"
      by (simp add: getitem_score_def subscript_def score_of_def as_dict_def)
  qed
  then have keys: "map_result (getitem_score (?h @ T)) r = Inr (map (\<lambda>a. score_of ((?h @ T) ! a)) r)"
    by (rule map_result_Inr)
  have run: "retrieve_store u scorer s query top_k =
      (slice_to (sort_reverse (\<lambda>a. score_of ((?h @ T) ! a)) r) top_k, s\<lparr>objects := ?h @ T\<rparr>)"
    by (simp add: retrieve_store_def loop keys sort_zip_keys)
  have "map (\<lambda>a. (?h @ T) ! a) (sort_reverse (\<lambda>a. score_of ((?h @ T) ! a)) r)
      = sort_reverse score_of (map (\<lambda>a. (?h @ T) ! a) r)"
    by (simp add: sort_reverse_map)
  also have "\<dots> = sort_reverse score_of T"
    by (simp only: vals)
  also have "\<dots> = map as_dict (sort_reverse score S)"
    unfolding T_def by (simp add: sort_reverse_map score_of_dict)
  finally have sorted_vals:
    "map (\<lambda>a. (?h @ T) ! a) (sort_reverse (\<lambda>a. score_of ((?h @ T) ! a)) r)
       = map as_dict (sort_reverse score S)" .
  show "result_values (retrieve_store u scorer s query top_k) =
      map as_dict
        (slice_to (sort_reverse score
           (map (\<lambda>d. doc_copy_with_score d (of_nat (scorer d) / of_nat (query_length u query)))
              (filter (\<lambda>d. 0 < scorer d) (stored_documents s)))) top_k)"
    unfolding run result_values_def S_def [symmetric]
    using sorted_vals by (simp add: slice_to_map [symmetric])
  show "\<exists>T. snd (retrieve_store u scorer s query top_k) = s\<lparr>objects := objects s @ T\<rparr>"
    unfolding run by auto
qed

lemma retrieve_store_frame:
  assumes "valid_store s"
  shows "self_documents (snd (retrieve_store u scorer s query top_k)) = self_documents s"
    and "stored_objects (snd (retrieve_store u scorer s query top_k)) = stored_objects s"
    and "valid_store (snd (retrieve_store u scorer s query top_k))"
proof -
  obtain T where T: "snd (retrieve_store u scorer s query top_k) = s\<lparr>objects := objects s @ T\<rparr>"
    using retrieve_store_result(2) [OF assms] by blast
  have valid: "\<forall>a \<in> set (self_documents s). a < length (objects s)"
    using assms by (simp add: valid_store_def list_all_iff)
  show "self_documents (snd (retrieve_store u scorer s query top_k)) = self_documents s"
    by (simp add: T)
  show "stored_objects (snd (retrieve_store u scorer s query top_k)) = stored_objects s"
    using valid by (simp add: T stored_objects_def nth_append)
  show "valid_store (snd (retrieve_store u scorer s query top_k))"
    using valid by (auto simp: T valid_store_def list_all_iff)
qed

lemma retrieve_store_twice:
  assumes "valid_store s"
  shows "result_values (retrieve_store u scorer (snd (retrieve_store u scorer s query top_k)) query top_k)
       = result_values (retrieve_store u scorer s query top_k)"
proof -
  let ?s1 = "snd (retrieve_store u scorer s query top_k)"
  have "stored_documents ?s1 = stored_documents s"
    by (simp add: stored_documents_def retrieve_store_frame(2) [OF assms])
  then show ?thesis
    by (simp add: retrieve_store_result(1) [OF assms]
        retrieve_store_result(1) [OF retrieve_store_frame(3) [OF assms]])
qed

lemma score_loop_map_filter:
  "score_loop u query docs =
     map (\<lambda>d. doc_copy_with_score d (of_nat (total_score u query d) / of_nat (query_length u query)))
       (filter (\<lambda>d. 0 < total_score u query d) docs)"
  by (induction docs) simp_all

lemma score_loop_basic_map_filter:
  "score_loop_basic u query docs =
     map (\<lambda>d. doc_copy_with_score d
                 (of_nat (total_score_basic u query d) / of_nat (query_length u query)))
       (filter (\<lambda>d. 0 < total_score_basic u query d) docs)"
  by (induction docs) simp_all










lemma valid_store_of: "valid_store (store_of docs)"
  by (simp add: valid_store_def store_of_def list_all_iff)





lemma retrieve_relevant_documents_store_values:
  assumes "valid_store s"
  shows "result_values (retrieve_relevant_documents_store u s query top_k)
       = map as_dict (retrieve_relevant_documents u (stored_documents s) query top_k)"
  by (simp add: retrieve_relevant_documents_store_def retrieve_store_result(1) [OF assms]
      retrieve_relevant_documents_def score_loop_map_filter)

lemma retrieve_documents_store_values:
  assumes "valid_store s"
  shows "result_values (retrieve_documents_store u s query top_k)
       = map as_dict (retrieve_documents u (stored_documents s) query top_k)"
  by (simp add: retrieve_documents_store_def retrieve_store_result(1) [OF assms]
      retrieve_documents_def score_loop_basic_map_filter)

text \<open>
  Claim C8. On a store whose references are valid, a lexical retrieve leaves
  \<open>self.documents\<close> and every dictionary behind it as they were: only fresh copies
  are written. A second call with the same query and \<open>top_k\<close> returns the same
  dictionaries, with the same scores, in the same order; they are the value of the
  retrieve function on the stored documents.
\<close>

theorem retrieve_idempotent:
  assumes "valid_store s"
  shows "self_documents (snd (retrieve_relevant_documents_store u s query top_k)) = self_documents s
    \<and> stored_objects (snd (retrieve_relevant_documents_store u s query top_k)) = stored_objects s
    \<and> result_values (retrieve_relevant_documents_store u
          (snd (retrieve_relevant_documents_store u s query top_k)) query top_k)
        = result_values (retrieve_relevant_documents_store u s query top_k)
    \<and> result_values (retrieve_relevant_documents_store u s query top_k)
        = map as_dict (retrieve_relevant_documents u (stored_documents s) query top_k)
    \<and> self_documents (snd (retrieve_documents_store u s query top_k)) = self_documents s
    \<and> stored_objects (snd (retrieve_documents_store u s query top_k)) = stored_objects s
    \<and> result_values (retrieve_documents_store u
          (snd (retrieve_documents_store u s query top_k)) query top_k)
        = result_values (retrieve_documents_store u s query top_k)
    \<and> result_values (retrieve_documents_store u s query top_k)
        = map as_dict (retrieve_documents u (stored_documents s) query top_k)"
  using retrieve_relevant_documents_store_values [OF assms, of u query top_k]
    retrieve_documents_store_values [OF assms, of u query top_k]
  unfolding retrieve_relevant_documents_store_def retrieve_documents_store_def
  by (simp add: retrieve_store_frame [OF assms] retrieve_store_twice [OF assms])

theorem retrieve_idempotent_witness:
  "result_values (retrieve_relevant_documents_store latin1
       (snd (retrieve_relevant_documents_store latin1 (store_of kb_example) (str ''password'') 3))
       (str ''password'') 3)
     = result_values (retrieve_relevant_documents_store latin1 (store_of kb_example) (str ''password'') 3)
   \<and> stored_objects (snd (retrieve_relevant_documents_store latin1 (store_of kb_example) (str ''password'') 3))
     = stored_objects (store_of kb_example)
   \<and> result_values (retrieve_relevant_documents_store latin1 (store_of kb_example) (str ''password'') 3)
     = [\<lparr>title = Some (str ''Reset Password''), content = Some (str ''Click forgot password on login page''),
         category = Some (str ''Account''), score_key = Some 7\<rparr>,
        \<lparr>title = Some (str ''Password Rules''), content = Some (str ''Use a long password''),
         category = Some (str ''Account''), score_key = Some 7\<rparr>]"
proof -
  have run: "result_values (retrieve_relevant_documents_store latin1 (store_of kb_example) (str ''password'') 3)
     = [\<lparr>title = Some (str ''Reset Password''), content = Some (str ''Click forgot password on login page''),
         category = Some (str ''Account''), score_key = Some 7\<rparr>,
        \<lparr>title = Some (str ''Password Rules''), content = Some (str ''Use a long password''),
         category = Some (str ''Account''), score_key = Some 7\<rparr>]"
    by code_simp
  from run retrieve_idempotent
    [where s = "store_of kb_example" and u = latin1 and query = "str ''password''"
       and top_k = 3, OF valid_store_of]
  show ?thesis by blast
qed




end
